theory Spec2Isabelle
  imports Complex_Main "HOL-Library.AList" "HOL-Library.Product_Lexorder" "HOL-Library.List_Lexorder"
begin

section \<open>Python values and exceptions\<close>

text \<open>
  A Python float is modelled as an exact real or as NaN; rounding and the infinities are
  not modelled. Instants are integers counting nanoseconds since the epoch.
\<close>

datatype pyfloat = Fin real | NaN

datatype py_error =
    IndexError
  | ValueError
  | KeyError string
  | TypeError
  | StoreError

text \<open>
  The values a Firestore document or a data frame cell can hold here.
  \<open>Timestamp\<close> is the timezone-aware instant the store returns, \<open>Datetime\<close> the naive
  one, and \<open>SERVER_TIMESTAMP\<close> is the sentinel of \<open>firestore.SERVER_TIMESTAMP\<close>: it is not an
  instant, the store replaces it by its own clock when it accepts a write.
\<close>

datatype pyval =
    PNone
  | PFloat pyfloat
  | PStr string
  | Timestamp int
  | Datetime int
  | SERVER_TIMESTAMP

text \<open>A dict keeps its keys in insertion order; assignment to a key is \<open>AList.update\<close>.\<close>

type_synonym doc = "(string \<times> pyval) list"

section \<open>data\_generator.py\<close>

subsection \<open>The loaded corpus\<close>

text \<open>
  A cell of a table read by \<open>pd.read_csv\<close>: an integer, a float (NaN where the file has a
  gap), a truth value or, in a column of no such type throughout, the text of the cell.
\<close>

datatype cell = CInt int | CFloat pyfloat | CBool bool | CStr string

text \<open>
  \<open>df.iloc[i]\<close> is a Series: the column labels with the row's cells. A data frame is the
  list of its rows, \<open>data_dict\<close> the dict from file name to data frame.
\<close>

type_synonym row = "(string \<times> cell) list"
type_synonym dataframe = "row list"
type_synonym data_dict = "(string \<times> dataframe) list"

definition FEATURE_COLS :: "string list" where
  "FEATURE_COLS = [''Ia'', ''Ib'', ''VDC'', ''IDC'', ''T1'', ''T2'', ''T3'', ''VD'']"

subsection \<open>The library calls of \<open>get_random_sample\<close>\<close>

text \<open>
  The random source is made explicit: each call of the \<open>random\<close> module consumes one raw
  draw \<open>u\<close>, a natural number. \<open>random.choice(seq)\<close> raises IndexError on an empty
  sequence and returns \<open>seq[randbelow(len(seq))]\<close> otherwise; \<open>random.randint(a, b)\<close> raises
  ValueError on an empty range and returns \<open>a + randbelow(b - a + 1)\<close> otherwise. The
  raw draw is reduced into the range, so that every element of the range is the result of
  some draw.
\<close>

definition random_choice :: "nat \<Rightarrow> 'a list \<Rightarrow> py_error + 'a" where
  "random_choice u xs = (if xs = [] then Inl IndexError else Inr (xs ! (u mod length xs)))"

definition random_randint :: "nat \<Rightarrow> int \<Rightarrow> int \<Rightarrow> py_error + int" where
  "random_randint u a b =
     (if b < a then Inl ValueError else Inr (a + int (u mod nat (b - a + 1))))"

text \<open>\<open>data_dict[key]\<close>: KeyError on a missing key.\<close>

definition dict_get :: "(string \<times> 'v) list \<Rightarrow> string \<Rightarrow> py_error + 'v" where
  "dict_get d k = (case map_of d k of None \<Rightarrow> Inl (KeyError k) | Some v \<Rightarrow> Inr v)"

text \<open>\<open>df.iloc[i]\<close>: a negative position counts from the end, IndexError out of bounds.\<close>

definition iloc :: "'a list \<Rightarrow> int \<Rightarrow> py_error + 'a" where
  "iloc df i =
     (if 0 \<le> i \<and> i < int (length df) then Inr (df ! nat i)
      else if i < 0 \<and> - int (length df) \<le> i then Inr (df ! nat (int (length df) + i))
      else Inl IndexError)"

text \<open>
  \<open>float(x)\<close>. On a string Python parses a float literal or raises ValueError; the parser
  is the parameter \<open>float_of_str\<close>.
\<close>

definition py_float :: "(string \<Rightarrow> pyfloat option) \<Rightarrow> cell \<Rightarrow> py_error + pyfloat" where
  "py_float float_of_str c =
     (case c of
        CInt i \<Rightarrow> Inr (Fin (of_int i))
      | CFloat x \<Rightarrow> Inr x
      | CBool b \<Rightarrow> Inr (Fin (if b then 1 else 0))
      | CStr s \<Rightarrow> (case float_of_str s of None \<Rightarrow> Inl ValueError | Some x \<Rightarrow> Inr x))"

subsection \<open>\<open>get_random_sample\<close>\<close>

text \<open>
  The dict comprehension \<open>{col: float(row[col]) for col in FEATURE_COLS if col in row}\<close>:
  the columns are visited in order, a column that is no label of the row is skipped, and the
  first conversion that raises ends the comprehension.
\<close>

fun extract_features :: "(string \<Rightarrow> pyfloat option) \<Rightarrow> row \<Rightarrow> string list \<Rightarrow> py_error + doc" where
  "extract_features float_of_str r [] = Inr []"
| "extract_features float_of_str r (col # cols) =
     (case map_of r col of
        None \<Rightarrow> extract_features float_of_str r cols
      | Some c \<Rightarrow>
          (case py_float float_of_str c of
             Inl e \<Rightarrow> Inl e
           | Inr x \<Rightarrow>
               (case extract_features float_of_str r cols of
                  Inl e \<Rightarrow> Inl e
                | Inr d \<Rightarrow> Inr ((col, PFloat x) # d))))"

text \<open>\<open>u\<close> is the draw of \<open>random.choice\<close>, \<open>v\<close> the draw of \<open>random.randint\<close>.\<close>

definition get_random_sample ::
  "(string \<Rightarrow> pyfloat option) \<Rightarrow> nat \<Rightarrow> nat \<Rightarrow> data_dict \<Rightarrow> py_error + doc" where
  "get_random_sample float_of_str u v dd =
     (case random_choice u (map fst dd) of
        Inl e \<Rightarrow> Inl e
      | Inr csv_file \<Rightarrow>
     (case dict_get dd csv_file of
        Inl e \<Rightarrow> Inl e
      | Inr df \<Rightarrow>
     (case random_randint v 0 (int (length df) - 1) of
        Inl e \<Rightarrow> Inl e
      | Inr random_idx \<Rightarrow>
     (case iloc df random_idx of
        Inl e \<Rightarrow> Inl e
      | Inr r \<Rightarrow>
     (case extract_features float_of_str r FEATURE_COLS of
        Inl e \<Rightarrow> Inl e
      | Inr sample \<Rightarrow>
          Inr (AList.update ''timestamp'' SERVER_TIMESTAMP
                (AList.update ''source_file'' (PStr csv_file) sample)))))))"

subsection \<open>The store\<close>

text \<open>
  The Firestore client \<open>db\<close>: the documents of each named collection in the order they were
  added, and the ordered queries issued to the store so far, answered or not. Document ids
  are not modelled.
\<close>

datatype direction = ASCENDING | DESCENDING

record query =
  q_collection :: string
  q_order_by :: string
  q_direction :: direction

record firestore =
  collections :: "string \<Rightarrow> doc list"
  issued :: "query list"

text \<open>The store replaces the sentinel by its clock reading \<open>t\<close> when it writes a document.\<close>

definition resolve_sentinel :: "int \<Rightarrow> doc \<Rightarrow> doc" where
  "resolve_sentinel t d = map (\<lambda>(k, v). (k, if v = SERVER_TIMESTAMP then Timestamp t else v)) d"

text \<open>
  \<open>db.collection(name).add(d)\<close>. The store's answer to the write is \<open>reply\<close>: \<open>None\<close> when
  the store rejects it or cannot be reached, and the call raises; \<open>Some t\<close> when the store
  accepts it at its clock reading \<open>t\<close> and appends the whole document.
\<close>

definition firestore_add :: "int option \<Rightarrow> string \<Rightarrow> doc \<Rightarrow> firestore \<Rightarrow> py_error + firestore" where
  "firestore_add reply name d client =
     (case reply of
        None \<Rightarrow> Inl StoreError
      | Some t \<Rightarrow>
          Inr (client\<lparr>collections :=
                 (collections client)(name := collections client name @ [resolve_sentinel t d])\<rparr>))"

subsection \<open>\<open>push_data\<close>\<close>

text \<open>
  What the surroundings do during one pass of the \<open>while True\<close> loop: the two random draws,
  the store's answer to the write, and whether Ctrl+C arrives, with the statement before
  which the KeyboardInterrupt is raised (\<open>InSleep\<close>: inside \<open>time.sleep\<close>). A write is one call
  on the store and is not interrupted half way.
\<close>

datatype stop_point = BeforeSample | BeforeAdd | BeforeCount | BeforePrint | BeforeFeatures | InSleep

record iteration =
  draw_file :: nat
  draw_row :: nat
  store_reply :: "int option"
  stop_at :: "stop_point option"

datatype exc = KeyboardInterrupt | Exception py_error

datatype print_line =
    Started int
  | Pushed nat pyval
  | Features pyval pyval pyval
  | StreamStopped nat
  | ErrorLine py_error

datatype status = Running | Stopped | Crashed py_error

record push_state =
  db :: firestore
  count :: nat
  printed :: "print_line list"
  status :: status

text \<open>
  The format \<open>:.2f\<close> prints a float with two decimals. A string raises ValueError, None and
  the sentinel raise TypeError; an instant takes the format as a \<open>strftime\<close> pattern and
  prints without error.
\<close>

definition format_2f :: "pyval \<Rightarrow> py_error + pyval" where
  "format_2f v =
     (case v of
        PFloat x \<Rightarrow> Inr v
      | Timestamp t \<Rightarrow> Inr v
      | Datetime t \<Rightarrow> Inr v
      | PStr s \<Rightarrow> Inl ValueError
      | _ \<Rightarrow> Inl TypeError)"

text \<open>The second audit line reads \<open>sample['Ia']\<close>, \<open>sample['Ib']\<close> and \<open>sample['VDC']\<close>.\<close>

definition features_line :: "doc \<Rightarrow> py_error + print_line" where
  "features_line sample =
     (case dict_get sample ''Ia'' of Inl e \<Rightarrow> Inl e | Inr a \<Rightarrow>
     (case format_2f a of Inl e \<Rightarrow> Inl e | Inr ia \<Rightarrow>
     (case dict_get sample ''Ib'' of Inl e \<Rightarrow> Inl e | Inr b \<Rightarrow>
     (case format_2f b of Inl e \<Rightarrow> Inl e | Inr ib \<Rightarrow>
     (case dict_get sample ''VDC'' of Inl e \<Rightarrow> Inl e | Inr c \<Rightarrow>
     (case format_2f c of Inl e \<Rightarrow> Inl e | Inr vdc \<Rightarrow>
        Inr (Features ia ib vdc)))))))"

text \<open>
  One pass of the loop body. The result is the exception that leaves the body, if any, and
  the state reached. \<open>time.sleep\<close> raises ValueError on a negative interval.
\<close>

definition loop_body ::
  "(string \<Rightarrow> pyfloat option) \<Rightarrow> data_dict \<Rightarrow> int \<Rightarrow> iteration \<Rightarrow> push_state \<Rightarrow> exc option \<times> push_state" where
  "loop_body float_of_str dd interval it st =
     (if stop_at it = Some BeforeSample then (Some KeyboardInterrupt, st) else
      case get_random_sample float_of_str (draw_file it) (draw_row it) dd of
        Inl e \<Rightarrow> (Some (Exception e), st)
      | Inr sample \<Rightarrow>
     (if stop_at it = Some BeforeAdd then (Some KeyboardInterrupt, st) else
      case firestore_add (store_reply it) ''raw_readings'' sample (db st) of
        Inl e \<Rightarrow> (Some (Exception e), st)
      | Inr db' \<Rightarrow>
     (let st1 = st\<lparr>db := db'\<rparr> in
      if stop_at it = Some BeforeCount then (Some KeyboardInterrupt, st1) else
      let st2 = st1\<lparr>count := count st1 + 1\<rparr> in
      if stop_at it = Some BeforePrint then (Some KeyboardInterrupt, st2) else
      case dict_get sample ''source_file'' of
        Inl e \<Rightarrow> (Some (Exception e), st2)
      | Inr src \<Rightarrow>
     (let st3 = st2\<lparr>printed := printed st2 @ [Pushed (count st2) src]\<rparr> in
      if stop_at it = Some BeforeFeatures then (Some KeyboardInterrupt, st3) else
      case features_line sample of
        Inl e \<Rightarrow> (Some (Exception e), st3)
      | Inr l \<Rightarrow>
     (let st4 = st3\<lparr>printed := printed st3 @ [l]\<rparr> in
      if interval < 0 then (Some (Exception ValueError), st4) else
      if stop_at it = Some InSleep then (Some KeyboardInterrupt, st4) else
      (None, st4))))))"

text \<open>
  \<open>while True\<close>: the loop has no exit of its own. It runs against the surroundings of its
  successive passes; when these are used up without an exception the loop is still running.
\<close>

fun run_loop ::
  "(string \<Rightarrow> pyfloat option) \<Rightarrow> data_dict \<Rightarrow> int \<Rightarrow> iteration list \<Rightarrow> push_state \<Rightarrow> exc option \<times> push_state" where
  "run_loop float_of_str dd interval [] st = (None, st)"
| "run_loop float_of_str dd interval (it # its) st =
     (case loop_body float_of_str dd interval it st of
        (Some x, st') \<Rightarrow> (Some x, st')
      | (None, st') \<Rightarrow> run_loop float_of_str dd interval its st')"

text \<open>
  The \<open>try\<close> encloses the whole loop: KeyboardInterrupt prints the count, any other
  exception prints the error, and in both cases \<open>push_data\<close> returns.
\<close>

definition push_data ::
  "(string \<Rightarrow> pyfloat option) \<Rightarrow> data_dict \<Rightarrow> int \<Rightarrow> iteration list \<Rightarrow> firestore \<Rightarrow> push_state" where
  "push_data float_of_str dd interval its client =
     (case run_loop float_of_str dd interval its
             \<lparr>db = client, count = 0, printed = [Started interval], status = Running\<rparr> of
        (None, st) \<Rightarrow> st
      | (Some KeyboardInterrupt, st) \<Rightarrow>
          st\<lparr>printed := printed st @ [StreamStopped (count st)], status := Stopped\<rparr>
      | (Some (Exception e), st) \<Rightarrow>
          st\<lparr>printed := printed st @ [ErrorLine e], status := Crashed e\<rparr>)"

text \<open>
  For stating what the store holds: \<open>submitted f dd it d\<close> says that \<open>d\<close> is the document
  the store keeps of the pass \<open>it\<close>, that is the whole sample of the pass's draws with the
  store's clock reading under \<open>timestamp\<close>.
\<close>

abbreviation submitted ::
  "(string \<Rightarrow> pyfloat option) \<Rightarrow> data_dict \<Rightarrow> iteration \<Rightarrow> doc \<Rightarrow> bool" where
  "submitted f dd it d \<equiv>
     (\<exists>s t. get_random_sample f (draw_file it) (draw_row it) dd = Inr s \<and>
            store_reply it = Some t \<and> d = AList.update ''timestamp'' (Timestamp t) s)"

subsection \<open>\<open>load_csv_files\<close> and the main block\<close>

definition CSV_FILES :: "string list" where
  "CSV_FILES =
     [''NORMAL_OP.csv'', ''HB1_OVER_TEMP.csv'', ''HB2_HIGH_SIDE_SC.csv'', ''HB2_HIGH_SIDE_OC.csv'',
      ''HB3_OVER_TEMP.csv'', ''HB1_LOW_SIDE_SC.csv'', ''HB3_LOW_SIDE_OC.csv'', ''HB12_OVER_TEMP.csv'',
      ''HB3_HIGH_SIDE_SC.csv'']"

text \<open>
  \<open>read_csv\<close> stands for the files on disk: what \<open>pd.read_csv\<close> returns or raises for a
  file name. A file that cannot be read is reported and left out.
\<close>

definition load_csv_files :: "(string \<Rightarrow> py_error + dataframe) \<Rightarrow> data_dict" where
  "load_csv_files read_csv =
     foldl (\<lambda>d csv_file. case read_csv csv_file of
                             Inl e \<Rightarrow> d
                           | Inr df \<Rightarrow> AList.update csv_file df d) [] CSV_FILES"

text \<open>The main block starts the stream only when at least one file was loaded.\<close>

definition main ::
  "(string \<Rightarrow> pyfloat option) \<Rightarrow> (string \<Rightarrow> py_error + dataframe) \<Rightarrow> iteration list \<Rightarrow> firestore \<Rightarrow>
   push_state option" where
  "main float_of_str read_csv its client =
     (let dd = load_csv_files read_csv
      in if dd = [] then None else Some (push_data float_of_str dd 60 its client))"

section \<open>dashboard.py\<close>

subsection \<open>The ordered read of the store\<close>

text \<open>
  \<open>db.collection(name).order_by(field, direction).stream()\<close>. An ordered query returns
  the documents of the one collection that have the field, sorted on its value; values of
  different types are ordered by type (null, NaN, numbers, timestamps, strings), strings by
  their bytes. \<open>order_key\<close> maps a value to its place in that order. Document ids are not
  modelled: among documents with equal values the order is the model's choice.
\<close>

definition order_key :: "pyval \<Rightarrow> nat \<times> real \<times> nat list" where
  "order_key v =
     (case v of
        PNone \<Rightarrow> (0, 0, [])
      | PFloat NaN \<Rightarrow> (1, 0, [])
      | PFloat (Fin x) \<Rightarrow> (2, x, [])
      | Timestamp t \<Rightarrow> (3, real_of_int t, [])
      | Datetime t \<Rightarrow> (3, real_of_int t, [])
      | PStr s \<Rightarrow> (4, 0, map of_char s)
      | SERVER_TIMESTAMP \<Rightarrow> (5, 0, []))"

definition field_of :: "string \<Rightarrow> doc \<Rightarrow> pyval" where
  "field_of k d = (case map_of d k of None \<Rightarrow> PNone | Some v \<Rightarrow> v)"

definition order_by :: "string \<Rightarrow> direction \<Rightarrow> doc list \<Rightarrow> doc list" where
  "order_by k dir docs =
     (let rising = sort_key (\<lambda>d. order_key (field_of k d)) (filter (\<lambda>d. map_of d k \<noteq> None) docs)
      in case dir of ASCENDING \<Rightarrow> rising | DESCENDING \<Rightarrow> rev rising)"

text \<open>
  \<open>answers\<close> tells whether the store answers this read. When it does not, the iteration
  over \<open>stream()\<close> raises. The query has been issued in both cases.
\<close>

definition firestore_stream :: "bool \<Rightarrow> query \<Rightarrow> firestore \<Rightarrow> (py_error + doc list) \<times> firestore" where
  "firestore_stream answers q client =
     (if answers
      then Inr (order_by (q_order_by q) (q_direction q) (collections client (q_collection q)))
      else Inl StoreError,
      client\<lparr>issued := issued client @ [q]\<rparr>)"

subsection \<open>Data frames of documents\<close>

text \<open>
  \<open>pd.DataFrame(data)\<close> of a list of dicts is kept as that list: its columns are the keys
  that occur in some row, and a row without the key reads as NaN in that column.
  \<open>df.empty\<close> holds when there is no row or no column.
\<close>

definition df_empty :: "doc list \<Rightarrow> bool" where
  "df_empty df = list_all (\<lambda>d. d = []) df"

definition column :: "string \<Rightarrow> doc list \<Rightarrow> py_error + pyval list" where
  "column k df =
     (if list_ex (\<lambda>d. map_of d k \<noteq> None) df
      then Inr (map (\<lambda>d. case map_of d k of None \<Rightarrow> PFloat NaN | Some v \<Rightarrow> v) df)
      else Inl (KeyError k))"

text \<open>\<open>df[k] = values\<close>: ValueError when the number of values is not the number of rows.\<close>

definition set_column :: "string \<Rightarrow> pyval list \<Rightarrow> doc list \<Rightarrow> py_error + doc list" where
  "set_column k vs df =
     (if length vs = length df then Inr (map (\<lambda>(d, v). AList.update k v d) (zip df vs))
      else Inl ValueError)"

definition is_missing :: "pyval \<Rightarrow> bool" where
  "is_missing v = (case v of PNone \<Rightarrow> True | PFloat NaN \<Rightarrow> True | _ \<Rightarrow> False)"

subsection \<open>\<open>fetch_verdicts\<close>\<close>

text \<open>
  The loop over the documents turns each into a dict and, when it has a timestamp that is
  not None, calls \<open>d["timestamp"].replace(tzinfo=None)\<close> inside \<open>try\<close>: an instant loses
  its timezone and what it has below the microsecond, and keeps the rest of its clock
  reading; on any other value the call raises and the bare \<open>except\<close> leaves the value as it
  is.
\<close>

definition strip_tz :: "pyval \<Rightarrow> pyval" where
  "strip_tz v =
     (case v of
        Timestamp t \<Rightarrow> Datetime (1000 * (t div 1000))
      | Datetime t \<Rightarrow> Datetime t
      | _ \<Rightarrow> v)"

definition doc_row :: "doc \<Rightarrow> doc" where
  "doc_row d =
     (case map_of d ''timestamp'' of
        None \<Rightarrow> d
      | Some v \<Rightarrow> (if v = PNone then d else AList.update ''timestamp'' (strip_tz v) d))"

text \<open>
  \<open>pd.to_datetime\<close> of a column. Naive instants stay, missing values become NaT (written
  \<open>PNone\<close>); what pandas makes of a column that holds anything else is the parameter
  \<open>parse\<close>.
\<close>

definition to_datetime ::
  "(pyval list \<Rightarrow> py_error + pyval list) \<Rightarrow> pyval list \<Rightarrow> py_error + pyval list" where
  "to_datetime parse col =
     (if list_all (\<lambda>v. is_missing v \<or> (case v of Datetime t \<Rightarrow> True | _ \<Rightarrow> False)) col
      then Inr (map (\<lambda>v. if is_missing v then PNone else v) col)
      else parse col)"

definition verdicts_query :: query where
  "verdicts_query =
     \<lparr>q_collection = ''verdicts'', q_order_by = ''timestamp'', q_direction = DESCENDING\<rparr>"

text \<open>The body of \<open>fetch_verdicts\<close>, as it runs when the cache does not answer.\<close>

definition fetch_verdicts_body ::
  "(pyval list \<Rightarrow> py_error + pyval list) \<Rightarrow> bool \<Rightarrow> firestore \<Rightarrow> (py_error + doc list) \<times> firestore" where
  "fetch_verdicts_body parse answers client =
     (case firestore_stream answers verdicts_query client of
        (Inl e, client') \<Rightarrow> (Inl e, client')
      | (Inr docs, client') \<Rightarrow>
      (let df = map doc_row docs in
       if df_empty df then (Inr df, client') else
       case column ''timestamp'' df of
         Inl e \<Rightarrow> (Inl e, client')
       | Inr col \<Rightarrow>
      (case to_datetime parse col of
         Inl e \<Rightarrow> (Inl e, client')
       | Inr col' \<Rightarrow> (set_column ''timestamp'' col' df, client'))))"

text \<open>
  \<open>@st.cache_data(ttl=...)\<close> around a function without arguments: the cache holds the last
  result with the clock reading \<open>captured_at\<close> at which it was stored. A call looks at the
  clock when it starts (\<open>started_at\<close>): it returns the held result while its age is below
  the time to live, and otherwise runs the function and stores the new result with the
  clock reading of that moment (\<open>stored_at\<close>). A call that raises stores nothing. Whether
  the store answers the read of this call is \<open>store_answers\<close>.
\<close>

record 'a cache_entry =
  cached_value :: 'a
  captured_at :: real

record call =
  started_at :: real
  stored_at :: real
  store_answers :: bool

definition cache_miss ::
  "(firestore \<Rightarrow> (py_error + 'a) \<times> firestore) \<Rightarrow> real \<Rightarrow> firestore \<Rightarrow>
   (py_error + 'a) \<times> 'a cache_entry option \<times> firestore" where
  "cache_miss f stored client =
     (case f client of
        (Inl e, client') \<Rightarrow> (Inl e, None, client')
      | (Inr v, client') \<Rightarrow> (Inr v, Some \<lparr>cached_value = v, captured_at = stored\<rparr>, client'))"

definition cache_data ::
  "real \<Rightarrow> (firestore \<Rightarrow> (py_error + 'a) \<times> firestore) \<Rightarrow>
   real \<Rightarrow> real \<Rightarrow> 'a cache_entry option \<Rightarrow> firestore \<Rightarrow>
   (py_error + 'a) \<times> 'a cache_entry option \<times> firestore" where
  "cache_data ttl f now stored cache client =
     (case cache of
        None \<Rightarrow> cache_miss f stored client
      | Some e \<Rightarrow>
          (if now - captured_at e < ttl then (Inr (cached_value e), cache, client)
           else cache_miss f stored client))"

definition fetch_verdicts ::
  "(pyval list \<Rightarrow> py_error + pyval list) \<Rightarrow> call \<Rightarrow> doc list cache_entry option \<Rightarrow> firestore \<Rightarrow>
   (py_error + doc list) \<times> doc list cache_entry option \<times> firestore" where
  "fetch_verdicts parse c cache client =
     cache_data 10 (fetch_verdicts_body parse (store_answers c)) (started_at c) (stored_at c) cache client"

subsection \<open>\<open>generate_pdf_report\<close>\<close>

text \<open>
  The story handed to the document builder. A paragraph is kept as the pieces of its
  f-string: literal text, an integer, a float printed with two decimals, or the clock
  reading of \<open>datetime.now()\<close>.
\<close>

datatype piece = Lit string | IntP nat | Float2 pyfloat | Clock int

datatype table_cell = Head string | Label pyval | Count nat

datatype flowable =
    Paragraph "piece list" string
  | Spacer nat nat
  | Table "table_cell list list"

definition fmul :: "pyfloat \<Rightarrow> real \<Rightarrow> pyfloat" where
  "fmul x c = (case x of Fin r \<Rightarrow> Fin (r * c) | NaN \<Rightarrow> NaN)"

definition fdiv :: "pyfloat \<Rightarrow> real \<Rightarrow> pyfloat" where
  "fdiv x c = (case x of Fin r \<Rightarrow> Fin (r / c) | NaN \<Rightarrow> NaN)"

text \<open>
  \<open>Series.mean()\<close>: missing values are skipped, the mean of no value is NaN, and a column
  that holds anything but numbers raises.
\<close>

definition finite_values :: "pyval list \<Rightarrow> real list" where
  "finite_values col = concat (map (\<lambda>v. case v of PFloat (Fin x) \<Rightarrow> [x] | _ \<Rightarrow> []) col)"

definition series_mean :: "pyval list \<Rightarrow> py_error + pyfloat" where
  "series_mean col =
     (if list_ex (\<lambda>v. case v of PNone \<Rightarrow> False | PFloat x \<Rightarrow> False | _ \<Rightarrow> True) col
      then Inl TypeError
      else (let xs = finite_values col
            in Inr (if xs = [] then NaN else Fin (sum_list xs / real (length xs)))))"

text \<open>
  \<open>(col.max() - col.min()).total_seconds()\<close>: missing values are skipped, the difference of
  NaT is NaT and its seconds are NaN. A column that holds anything but instants, or naive
  and timezone-aware ones together, raises.
\<close>

definition instants :: "pyval list \<Rightarrow> int list" where
  "instants col =
     concat (map (\<lambda>v. case v of Datetime t \<Rightarrow> [t] | Timestamp t \<Rightarrow> [t] | _ \<Rightarrow> []) col)"

definition span_seconds :: "pyval list \<Rightarrow> py_error + pyfloat" where
  "span_seconds col =
     (if list_ex (\<lambda>v. case v of PNone \<Rightarrow> False | PFloat NaN \<Rightarrow> False | Datetime t \<Rightarrow> False
                       | Timestamp t \<Rightarrow> False | _ \<Rightarrow> True) col
         \<or> (list_ex (\<lambda>v. case v of Datetime t \<Rightarrow> True | _ \<Rightarrow> False) col
            \<and> list_ex (\<lambda>v. case v of Timestamp t \<Rightarrow> True | _ \<Rightarrow> False) col)
      then Inl TypeError
      else (let ts = instants col
            in Inr (if ts = [] then NaN
                    else Fin (real_of_int (Max (set ts) - Min (set ts)) / 1000000000))))"

text \<open>
  \<open>Series.value_counts()\<close>: missing values are dropped, each value is counted, and the
  values are listed by falling count (values with the same count in the order of their
  first occurrence).
\<close>

definition value_counts :: "pyval list \<Rightarrow> (pyval \<times> nat) list" where
  "value_counts col =
     (let vs = filter (\<lambda>v. \<not> is_missing v) col
      in sort_key (\<lambda>(v, n). - int n) (map (\<lambda>v. (v, count_list vs v)) (rev (remdups (rev vs)))))"

text \<open>\<open>now\<close> is the clock reading when the report is compiled.\<close>

definition report_header :: "int \<Rightarrow> flowable list" where
  "report_header now =
     [Paragraph [Lit ''<b>PMSM Fault Diagnosis Report</b>''] ''Title'',
      Spacer 1 12,
      Paragraph [Lit ''Generated: '', Clock now] ''Normal'',
      Spacer 1 12]"

definition generate_pdf_report :: "int \<Rightarrow> doc list \<Rightarrow> py_error + flowable list" where
  "generate_pdf_report now df =
     (if df_empty df
      then Inr (report_header now @ [Paragraph [Lit ''No data available.''] ''Normal''])
      else
       (let total = length df in
        case column ''confidence'' df of Inl e \<Rightarrow> Inl e | Inr conf \<Rightarrow>
       (case series_mean conf of Inl e \<Rightarrow> Inl e | Inr m \<Rightarrow>
       (let avg_conf = fmul m 100 in
        case column ''timestamp'' df of Inl e \<Rightarrow> Inl e | Inr stamps \<Rightarrow>
       (case span_seconds stamps of Inl e \<Rightarrow> Inl e | Inr secs \<Rightarrow>
       (let uptime_hours = fdiv secs 3600 in
        case column ''fault_label'' df of Inl e \<Rightarrow> Inl e | Inr labels \<Rightarrow>
          Inr (report_header now @
               [Paragraph [Lit ''Total Samples Processed: '', IntP total] ''Normal'',
                Paragraph [Lit ''Average Confidence: '', Float2 avg_conf, Lit ''%''] ''Normal'',
                Paragraph [Lit ''System Uptime: '', Float2 uptime_hours, Lit '' hours''] ''Normal'',
                Spacer 1 12,
                Table ([Head ''Fault'', Head ''Count''] #
                       map (\<lambda>(v, n). [Label v, Count n]) (value_counts labels)),
                Spacer 1 12])))))))"

section \<open>What \<open>get_random_sample\<close> returns\<close>

subsection \<open>The features of a sample\<close>

lemma extract_features_keys:
  "extract_features f r cols = Inr d \<Longrightarrow> map fst d = filter (\<lambda>c. map_of r c \<noteq> None) cols"
  by (induction cols arbitrary: d) (auto split: option.splits sum.splits)

lemma extract_features_total:
  "(\<And>col c. col \<in> set cols \<Longrightarrow> map_of r col = Some c \<Longrightarrow> \<exists>x. py_float f c = Inr x) \<Longrightarrow>
   \<exists>d. extract_features f r cols = Inr d"
proof (induction cols)
  case Nil
  show ?case by simp
next
  case (Cons col cols)
  then obtain d where d: "extract_features f r cols = Inr d"
    by fastforce
  show ?case
  proof (cases "map_of r col")
    case None
    with d show ?thesis by simp
  next
    case (Some c)
    with Cons.prems obtain x where "py_float f c = Inr x"
      by fastforce
    with d Some show ?thesis by simp
  qed
qed

lemma extract_features_map_of:
  "extract_features f r cols = Inr d \<Longrightarrow>
   map_of d col =
     (if col \<in> set cols
      then (case map_of r col of
              None \<Rightarrow> None
            | Some c \<Rightarrow> (case py_float f c of Inl e \<Rightarrow> None | Inr x \<Rightarrow> Some (PFloat x)))
      else None)"
  by (induction cols arbitrary: d) (auto split: option.splits sum.splits)

subsection \<open>The sample\<close>

lemma get_random_sample_Inr:
  "get_random_sample f u v dd = Inr s \<longleftrightarrow>
     dd \<noteq> [] \<and>
     (\<exists>df feats. map_of dd (map fst dd ! (u mod length dd)) = Some df \<and> df \<noteq> [] \<and>
        extract_features f (df ! (v mod length df)) FEATURE_COLS = Inr feats \<and>
        s = AList.update ''timestamp'' SERVER_TIMESTAMP
              (AList.update ''source_file'' (PStr (map fst dd ! (u mod length dd))) feats))"
  apply (auto simp: get_random_sample_def random_choice_def dict_get_def random_randint_def iloc_def Let_def
      split: sum.splits option.splits if_splits)
  done

lemma feature_cols_not_meta:
  "col \<in> set FEATURE_COLS \<Longrightarrow> col \<noteq> ''source_file'' \<and> col \<noteq> ''timestamp''"
  by (auto simp: FEATURE_COLS_def)

lemma sample_map_of:
  "map_of (AList.update ''timestamp'' SERVER_TIMESTAMP (AList.update ''source_file'' (PStr n) feats)) k =
     (if k = ''timestamp'' then Some SERVER_TIMESTAMP
      else if k = ''source_file'' then Some (PStr n) else map_of feats k)"
  by (simp add: update_conv')

lemma sample_keys:
  "extract_features f r FEATURE_COLS = Inr feats \<Longrightarrow>
   filter (\<lambda>k. k \<noteq> ''source_file'' \<and> k \<noteq> ''timestamp'')
     (map fst (AList.update ''timestamp'' SERVER_TIMESTAMP (AList.update ''source_file'' (PStr n) feats)))
   = map fst feats"
proof -
  assume a: "extract_features f r FEATURE_COLS = Inr feats"
  have k: "map fst feats = filter (\<lambda>c. map_of r c \<noteq> None) FEATURE_COLS"
    using a by (rule extract_features_keys)
  have "set (map fst feats) \<subseteq> set FEATURE_COLS"
    unfolding k by auto
  then have nm: "\<forall>k\<in>set (map fst feats). k \<noteq> ''source_file'' \<and> k \<noteq> ''timestamp''"
    using feature_cols_not_meta by blast
  then have "filter (\<lambda>k. k \<noteq> ''source_file'' \<and> k \<noteq> ''timestamp'') (map fst feats) = map fst feats"
    by (simp add: filter_id_conv)
  with nm show ?thesis
    by (auto simp: update_keys)
qed

lemmas sample_eval = get_random_sample_def random_choice_def dict_get_def random_randint_def
  iloc_def FEATURE_COLS_def py_float_def

text \<open>
  Claim C4, as the code has it. The claim says that the record returned by
  \<open>get_random_sample\<close> has its timestamp field unset. The code sets the field: every record
  returned holds the sentinel \<open>SERVER_TIMESTAMP\<close> under the key \<open>timestamp\<close>. The sentinel is
  no instant, no field of the record holds a clock reading, and the store puts its own
  clock reading in the sentinel's place when it writes the record.
\<close>

theorem timestamp_is_server_sentinel:
  assumes "get_random_sample f u v dd = Inr s"
  shows "map_of s ''timestamp'' = Some SERVER_TIMESTAMP \<and>
         (\<forall>k t. map_of s k \<noteq> Some (Timestamp t) \<and> map_of s k \<noteq> Some (Datetime t)) \<and>
         (\<forall>t. map_of (resolve_sentinel t s) ''timestamp'' = Some (Timestamp t))"
proof -
  from assms obtain df feats n r where
    ex: "extract_features f r FEATURE_COLS = Inr feats" and
    s: "s = AList.update ''timestamp'' SERVER_TIMESTAMP (AList.update ''source_file'' (PStr n) feats)"
    unfolding get_random_sample_Inr by blast
  have 1: "map_of s ''timestamp'' = Some SERVER_TIMESTAMP"
    unfolding s sample_map_of by simp
  have 2: "map_of s k \<noteq> Some (Timestamp t) \<and> map_of s k \<noteq> Some (Datetime t)" for k t
    unfolding s sample_map_of using extract_features_map_of [OF ex, of k]
    by (auto split: option.splits sum.splits if_splits)
  have 3: "map_of (resolve_sentinel t s) ''timestamp'' = Some (Timestamp t)" for t
    using 1 by (simp add: resolve_sentinel_def map_of_map)
  from 1 2 3 show ?thesis by blast
qed

theorem timestamp_is_server_sentinel_witness:
  "get_random_sample Map.empty 3 5
     [(''NORMAL_OP.csv'', [[(''Ia'', CFloat (Fin 1)), (''Ib'', CInt 2), (''FDD'', CInt 0)],
                           [(''Ia'', CFloat (Fin 4)), (''Ib'', CInt 7), (''FDD'', CInt 0)]])] =
     Inr [(''Ia'', PFloat (Fin 4)), (''Ib'', PFloat (Fin 7)),
          (''source_file'', PStr ''NORMAL_OP.csv''), (''timestamp'', SERVER_TIMESTAMP)] \<and>
   map_of [(''Ia'', PFloat (Fin 4)), (''Ib'', PFloat (Fin 7)),
           (''source_file'', PStr ''NORMAL_OP.csv''), (''timestamp'', SERVER_TIMESTAMP)]
     ''timestamp'' = Some SERVER_TIMESTAMP \<and>
   map_of (resolve_sentinel 99
            [(''Ia'', PFloat (Fin 4)), (''Ib'', PFloat (Fin 7)),
             (''source_file'', PStr ''NORMAL_OP.csv''), (''timestamp'', SERVER_TIMESTAMP)])
     ''timestamp'' = Some (Timestamp 99)"
proof -
  have h: "get_random_sample Map.empty 3 5
     [(''NORMAL_OP.csv'', [[(''Ia'', CFloat (Fin 1)), (''Ib'', CInt 2), (''FDD'', CInt 0)],
                           [(''Ia'', CFloat (Fin 4)), (''Ib'', CInt 7), (''FDD'', CInt 0)]])] =
     Inr [(''Ia'', PFloat (Fin 4)), (''Ib'', PFloat (Fin 7)),
          (''source_file'', PStr ''NORMAL_OP.csv''), (''timestamp'', SERVER_TIMESTAMP)]"
    by (simp add: sample_eval)
  from timestamp_is_server_sentinel [OF h] h show ?thesis
    by blast
qed

text \<open>
  Claim C4 as stated fails: the returned record has a value under \<open>timestamp\<close>.
\<close>

theorem timestamp_unset_counterexample:
  "get_random_sample Map.empty 0 0 [(''HB1_OVER_TEMP.csv'', [[(''Ia'', CFloat (Fin 1)), (''T1'', CInt 90)]])] =
     Inr [(''Ia'', PFloat (Fin 1)), (''T1'', PFloat (Fin 90)),
          (''source_file'', PStr ''HB1_OVER_TEMP.csv''), (''timestamp'', SERVER_TIMESTAMP)] \<and>
   map_of [(''Ia'', PFloat (Fin 1)), (''T1'', PFloat (Fin 90)),
           (''source_file'', PStr ''HB1_OVER_TEMP.csv''), (''timestamp'', SERVER_TIMESTAMP)]
     ''timestamp'' \<noteq> None"
  by (simp add: sample_eval)

text \<open>
  Claim C10. When the selected row's cells under the channel names convert to float, a
  sample is returned, and its keys besides \<open>source_file\<close> and \<open>timestamp\<close> are exactly those
  of the eight channel names that are columns of the row, in the order of \<open>FEATURE_COLS\<close>: a
  channel the row lacks is left out, nothing is raised for it.
\<close>

theorem feature_keys_are_present_channels:
  assumes "dd \<noteq> []"
    and "map_of dd (map fst dd ! (u mod length dd)) = Some df"
    and "df \<noteq> []"
    and "\<forall>col\<in>set FEATURE_COLS. \<forall>c. map_of (df ! (v mod length df)) col = Some c \<longrightarrow>
           (\<exists>x. py_float f c = Inr x)"
  shows "\<exists>s. get_random_sample f u v dd = Inr s \<and>
           filter (\<lambda>k. k \<noteq> ''source_file'' \<and> k \<noteq> ''timestamp'') (map fst s) =
           filter (\<lambda>col. map_of (df ! (v mod length df)) col \<noteq> None) FEATURE_COLS"
proof -
  obtain feats where ex: "extract_features f (df ! (v mod length df)) FEATURE_COLS = Inr feats"
    using extract_features_total [of FEATURE_COLS "df ! (v mod length df)" f] assms(4) by blast
  let ?s = "AList.update ''timestamp'' SERVER_TIMESTAMP
              (AList.update ''source_file'' (PStr (map fst dd ! (u mod length dd))) feats)"
  have "get_random_sample f u v dd = Inr ?s"
    unfolding get_random_sample_Inr using assms(1-3) ex by blast
  moreover have "filter (\<lambda>k. k \<noteq> ''source_file'' \<and> k \<noteq> ''timestamp'') (map fst ?s) =
      filter (\<lambda>col. map_of (df ! (v mod length df)) col \<noteq> None) FEATURE_COLS"
    using sample_keys [OF ex] extract_features_keys [OF ex] by simp
  ultimately show ?thesis by blast
qed

theorem feature_keys_are_present_channels_witness:
  "\<exists>s. get_random_sample Map.empty 7 1
          [(''NORMAL_OP.csv'', [[(''Ia'', CFloat (Fin 1))]]),
           (''HB3_OVER_TEMP.csv'', [[(''Ia'', CFloat (Fin 2)), (''T3'', CInt 95), (''FDD'', CStr ''hot'')]])]
        = Inr s \<and>
      filter (\<lambda>k. k \<noteq> ''source_file'' \<and> k \<noteq> ''timestamp'') (map fst s) = [''Ia'', ''T3'']"
proof -
  let ?dd = "[(''NORMAL_OP.csv'', [[(''Ia'', CFloat (Fin 1))]]),
           (''HB3_OVER_TEMP.csv'', [[(''Ia'', CFloat (Fin 2)), (''T3'', CInt 95), (''FDD'', CStr ''hot'')]])]"
  let ?df = "[[(''Ia'', CFloat (Fin 2)), (''T3'', CInt 95), (''FDD'', CStr ''hot'')]]"
  have 1: "?dd \<noteq> []" by simp
  have 2: "map_of ?dd (map fst ?dd ! (7 mod length ?dd)) = Some ?df"
    by (simp add: numeral_2_eq_2 [symmetric])
  have 3: "?df \<noteq> []" by simp
  have 4: "\<forall>col\<in>set FEATURE_COLS. \<forall>c. map_of (?df ! (1 mod length ?df)) col = Some c \<longrightarrow>
           (\<exists>x. py_float Map.empty c = Inr x)"
    by (simp add: FEATURE_COLS_def py_float_def)
  from feature_keys_are_present_channels [OF 1 2 3 4] show ?thesis
    by (simp add: FEATURE_COLS_def)
qed

text \<open>
  Claim C6, as the code has it. For a non-empty \<open>data_dict\<close> and any two draws, the file
  selected is one of the loaded names; when its table has a row, the row selected is one of
  its rows; and when that row's cells under the channel names convert to float, the sample
  returned names the selected file in \<open>source_file\<close> and holds, for each of the eight channel
  names, the float of that row's cell if the row has the column and nothing if it has not.
  The sample has no other key besides \<open>source_file\<close> and \<open>timestamp\<close>.
\<close>

theorem sample_provenance:
  assumes "dd \<noteq> []"
    and "map_of dd (map fst dd ! (u mod length dd)) = Some df"
    and "df \<noteq> []"
    and "\<forall>col\<in>set FEATURE_COLS. \<forall>c. map_of (df ! (v mod length df)) col = Some c \<longrightarrow>
           (\<exists>x. py_float f c = Inr x)"
  shows "\<exists>s. get_random_sample f u v dd = Inr s \<and>
           map_of s ''source_file'' = Some (PStr (map fst dd ! (u mod length dd))) \<and>
           map fst dd ! (u mod length dd) \<in> set (map fst dd) \<and>
           df ! (v mod length df) \<in> set df \<and>
           (\<forall>col\<in>set FEATURE_COLS.
              case map_of (df ! (v mod length df)) col of
                None \<Rightarrow> map_of s col = None
              | Some c \<Rightarrow> \<exists>x. py_float f c = Inr x \<and> map_of s col = Some (PFloat x)) \<and>
           (\<forall>k. k \<notin> set FEATURE_COLS \<longrightarrow> k \<noteq> ''source_file'' \<longrightarrow> k \<noteq> ''timestamp'' \<longrightarrow>
              map_of s k = None)"
proof -
  let ?r = "df ! (v mod length df)"
  let ?n = "map fst dd ! (u mod length dd)"
  obtain feats where ex: "extract_features f ?r FEATURE_COLS = Inr feats"
    using extract_features_total [of FEATURE_COLS ?r f] assms(4) by blast
  let ?s = "AList.update ''timestamp'' SERVER_TIMESTAMP (AList.update ''source_file'' (PStr ?n) feats)"
  have g: "get_random_sample f u v dd = Inr ?s"
    unfolding get_random_sample_Inr using assms(1-3) ex by blast
  have src: "map_of ?s ''source_file'' = Some (PStr ?n)"
    unfolding sample_map_of by simp
  have n: "?n \<in> set (map fst dd)"
    using assms(1) by simp
  have r: "?r \<in> set df"
    using assms(3) by simp
  have feat: "case map_of ?r col of
                None \<Rightarrow> map_of ?s col = None
              | Some c \<Rightarrow> \<exists>x. py_float f c = Inr x \<and> map_of ?s col = Some (PFloat x)"
    if c: "col \<in> set FEATURE_COLS" for col
  proof (cases "map_of ?r col")
    case None
    then show ?thesis
      using c feature_cols_not_meta [OF c] extract_features_map_of [OF ex, of col]
      unfolding sample_map_of by simp
  next
    case (Some cl)
    with assms(4) c obtain x where x: "py_float f cl = Inr x"
      by blast
    with Some show ?thesis
      using c feature_cols_not_meta [OF c] extract_features_map_of [OF ex, of col]
      unfolding sample_map_of by simp
  qed
  have other: "map_of ?s k = None"
    if "k \<notin> set FEATURE_COLS" "k \<noteq> ''source_file''" "k \<noteq> ''timestamp''" for k
    using that extract_features_map_of [OF ex, of k] unfolding sample_map_of by simp
  from g src n r feat other show ?thesis by blast
qed

theorem sample_provenance_witness:
  "\<exists>s. get_random_sample Map.empty 3 4
          [(''A.csv'', [[(''Ia'', CInt 1)], [(''Ia'', CInt 2)], [(''Ia'', CInt 3)]]),
           (''B.csv'', [[(''Ia'', CFloat (Fin 10)), (''VD'', CFloat NaN)],
                        [(''Ia'', CFloat (Fin 20)), (''VD'', CInt 5)]])]
        = Inr s \<and>
      map_of s ''source_file'' = Some (PStr ''B.csv'') \<and>
      map_of s ''Ia'' = Some (PFloat (Fin 10)) \<and> map_of s ''VD'' = Some (PFloat NaN) \<and>
      map_of s ''Ib'' = None"
proof -
  let ?dfB = "[[(''Ia'', CFloat (Fin 10)), (''VD'', CFloat NaN)],
              [(''Ia'', CFloat (Fin 20)), (''VD'', CInt 5)]]"
  let ?dd = "[(''A.csv'', [[(''Ia'', CInt 1)], [(''Ia'', CInt 2)], [(''Ia'', CInt 3)]]),
             (''B.csv'', ?dfB)]"
  have 1: "?dd \<noteq> []" by simp
  have 2: "map_of ?dd (map fst ?dd ! (3 mod length ?dd)) = Some ?dfB"
    by (simp add: numeral_2_eq_2 [symmetric])
  have 3: "?dfB \<noteq> []" by simp
  have 4: "\<forall>col\<in>set FEATURE_COLS. \<forall>c. map_of (?dfB ! (4 mod length ?dfB)) col = Some c \<longrightarrow>
           (\<exists>x. py_float Map.empty c = Inr x)"
    by (simp add: FEATURE_COLS_def py_float_def numeral_2_eq_2 [symmetric])
  from sample_provenance [OF 1 2 3 4] show ?thesis
    by (simp add: FEATURE_COLS_def py_float_def numeral_2_eq_2 [symmetric]) blast
qed

text \<open>
  Claim C6 as stated fails: a row with two of the eight channel columns gives a sample with
  two features, and a loaded table without rows gives no sample but ValueError.
\<close>

theorem eight_features_counterexample:
  "get_random_sample Map.empty 0 0
     [(''NORMAL_OP.csv'', [[(''Ia'', CFloat (Fin 1)), (''Ib'', CFloat (Fin 2)), (''FDD'', CInt 0)]])] =
     Inr [(''Ia'', PFloat (Fin 1)), (''Ib'', PFloat (Fin 2)),
          (''source_file'', PStr ''NORMAL_OP.csv''), (''timestamp'', SERVER_TIMESTAMP)] \<and>
   get_random_sample Map.empty 0 0 [(''NORMAL_OP.csv'', [])] = Inl ValueError"
  by (simp add: sample_eval)

section \<open>The stream of \<open>push_data\<close>\<close>

subsection \<open>One pass and many\<close>

text \<open>
  The store turns a sample into its record by putting its clock reading under \<open>timestamp\<close>;
  everything else in the sample stays.
\<close>

lemma resolve_no_sentinel:
  "(\<forall>p\<in>set al. snd p \<noteq> SERVER_TIMESTAMP) \<Longrightarrow> resolve_sentinel t al = al"
  by (induction al) (auto simp: resolve_sentinel_def)

lemma resolve_is_update:
  "distinct (map fst al) \<Longrightarrow> map_of al k = Some SERVER_TIMESTAMP \<Longrightarrow>
   (\<And>k'. (k', SERVER_TIMESTAMP) \<in> set al \<Longrightarrow> k' = k) \<Longrightarrow>
   resolve_sentinel t al = AList.update k (Timestamp t) al"
proof (induction al)
  case Nil
  then show ?case by simp
next
  case (Cons p al)
  obtain k' v where p: "p = (k', v)"
    by (cases p)
  show ?case
  proof (cases "k' = k")
    case True
    with Cons.prems(2) p have v: "v = SERVER_TIMESTAMP"
      by simp
    have "k \<notin> fst ` set al"
      using Cons.prems(1) p True by auto
    then have "\<forall>q\<in>set al. snd q \<noteq> SERVER_TIMESTAMP"
      using Cons.prems(3) by force
    then have "resolve_sentinel t al = al"
      by (rule resolve_no_sentinel)
    with p True v show ?thesis
      by (simp add: resolve_sentinel_def)
  next
    case False
    with Cons.prems(3) [of k'] p have v: "v \<noteq> SERVER_TIMESTAMP"
      by auto
    have "resolve_sentinel t al = AList.update k (Timestamp t) al"
      using Cons.prems p False by (intro Cons.IH) auto
    with p False v show ?thesis
      by (simp add: resolve_sentinel_def)
  qed
qed

lemma resolved_sample:
  assumes "get_random_sample f u v dd = Inr s"
  shows "resolve_sentinel t s = AList.update ''timestamp'' (Timestamp t) s"
proof -
  from assms obtain feats n r where
    ex: "extract_features f r FEATURE_COLS = Inr feats" and
    s: "s = AList.update ''timestamp'' SERVER_TIMESTAMP (AList.update ''source_file'' (PStr n) feats)"
    unfolding get_random_sample_Inr by blast
  have k: "map fst feats = filter (\<lambda>c. map_of r c \<noteq> None) FEATURE_COLS"
    using ex by (rule extract_features_keys)
  have df: "distinct (map fst feats)"
    unfolding k by (simp add: FEATURE_COLS_def)
  have nm: "''source_file'' \<notin> set (map fst feats)" "''timestamp'' \<notin> set (map fst feats)"
    unfolding k by (auto simp: FEATURE_COLS_def)
  have keys: "map fst s = map fst feats @ [''source_file'', ''timestamp'']"
    unfolding s using nm by (simp add: update_keys)
  have d: "distinct (map fst s)"
    unfolding keys using df nm by simp
  have m: "map_of s ''timestamp'' = Some SERVER_TIMESTAMP"
    unfolding s sample_map_of by simp
  have o: "k' = ''timestamp''" if "(k', SERVER_TIMESTAMP) \<in> set s" for k'
  proof -
    from that d have "map_of s k' = Some SERVER_TIMESTAMP"
      by simp
    with extract_features_map_of [OF ex, of k'] show ?thesis
      unfolding s sample_map_of by (auto split: if_splits option.splits sum.splits)
  qed
  show ?thesis
    using d m o by (rule resolve_is_update)
qed

lemma loop_body_effect:
  assumes "loop_body f dd iv it st = (x, st')"
  shows "\<exists>new. collections (db st') =
                 (collections (db st))(''raw_readings'' := collections (db st) ''raw_readings'' @ new) \<and>
          issued (db st') = issued (db st) \<and> status st' = status st \<and> length new \<le> 1 \<and>
          (x = None \<longrightarrow> length new = 1) \<and>
          count st' + (if x = Some KeyboardInterrupt \<and> stop_at it = Some BeforeCount then 1 else 0)
            = count st + length new \<and>
          (\<forall>d\<in>set new. submitted f dd it d)"
proof (cases "get_random_sample f (draw_file it) (draw_row it) dd")
  case (Inl e)
  with assms have "st' = st" "x \<noteq> None" "x = Some KeyboardInterrupt \<longrightarrow> stop_at it = Some BeforeSample"
    by (auto simp: loop_body_def split: if_splits)
  then show ?thesis
    by (intro exI [of _ "[]"]) auto
next
  case (Inr sample)
  show ?thesis
  proof (cases "stop_at it = Some BeforeSample \<or> stop_at it = Some BeforeAdd \<or> store_reply it = None")
    case True
    with assms Inr have "st' = st" "x \<noteq> None" "x = Some KeyboardInterrupt \<longrightarrow> stop_at it \<noteq> Some BeforeCount"
      by (auto simp: loop_body_def firestore_add_def split: if_splits)
    then show ?thesis
      by (intro exI [of _ "[]"]) auto
  next
    case False
    then obtain t where t: "store_reply it = Some t" and
      ns: "stop_at it \<noteq> Some BeforeSample" "stop_at it \<noteq> Some BeforeAdd"
      by auto
    let ?d = "resolve_sentinel t sample"
    have w: "submitted f dd it ?d"
      using Inr t resolved_sample [OF Inr, of t] by simp
    have "collections (db st') =
            (collections (db st))(''raw_readings'' := collections (db st) ''raw_readings'' @ [?d]) \<and>
          issued (db st') = issued (db st) \<and> status st' = status st \<and>
          count st' + (if x = Some KeyboardInterrupt \<and> stop_at it = Some BeforeCount then 1 else 0)
            = count st + 1"
      using assms Inr t ns
      by (auto simp: loop_body_def firestore_add_def Let_def split: if_splits sum.splits)
    with w show ?thesis
      by (intro exI [of _ "[?d]"]) auto
  qed
qed

lemma run_loop_effect:
  "run_loop f dd iv its st = (x, st') \<Longrightarrow>
   \<exists>k new. k \<le> length its \<and>
     collections (db st') =
       (collections (db st))(''raw_readings'' := collections (db st) ''raw_readings'' @ new) \<and>
     issued (db st') = issued (db st) \<and> status st' = status st \<and>
     list_all2 (submitted f dd) (take k its) new \<and>
     count st + k \<le> count st' + 1 \<and> count st' \<le> count st + k \<and>
     (x = None \<longrightarrow> k = length its \<and> count st' = count st + length its)"
proof (induction its arbitrary: st)
  case Nil
  then show ?case
    by (intro exI [of _ 0] exI [of _ "[]"]) auto
next
  case (Cons it its)
  obtain y st1 where b: "loop_body f dd iv it st = (y, st1)"
    by (cases "loop_body f dd iv it st")
  from loop_body_effect [OF b] obtain n1 where n1:
    "collections (db st1) =
       (collections (db st))(''raw_readings'' := collections (db st) ''raw_readings'' @ n1)"
    "issued (db st1) = issued (db st)" "status st1 = status st" "length n1 \<le> 1"
    "y = None \<longrightarrow> length n1 = 1"
    "count st1 + (if y = Some KeyboardInterrupt \<and> stop_at it = Some BeforeCount then 1 else 0)
       = count st + length n1"
    "\<forall>d\<in>set n1. submitted f dd it d"
    by blast
  have l1: "list_all2 (submitted f dd) (take (length n1) (it # its)) n1"
  proof (cases n1)
    case Nil
    then show ?thesis by simp
  next
    case (Cons d ds)
    with n1(4) have "ds = []"
      by simp
    with Cons n1(7) show ?thesis
      by simp
  qed
  show ?case
  proof (cases y)
    case (Some e)
    with b Cons.prems have "x = Some e" "st' = st1"
      by auto
    with n1 l1 Some show ?thesis
      by (intro exI [of _ "length n1"] exI [of _ n1]) (auto split: if_splits)
  next
    case None
    with b Cons.prems have r: "run_loop f dd iv its st1 = (x, st')"
      by auto
    from Cons.IH [OF r] obtain k2 n2 where n2:
      "k2 \<le> length its"
      "collections (db st') =
         (collections (db st1))(''raw_readings'' := collections (db st1) ''raw_readings'' @ n2)"
      "issued (db st') = issued (db st1)" "status st' = status st1"
      "list_all2 (submitted f dd) (take k2 its) n2"
      "count st1 + k2 \<le> count st' + 1" "count st' \<le> count st1 + k2"
      "x = None \<longrightarrow> k2 = length its \<and> count st' = count st1 + length its"
      by blast
    have c: "collections (db st') =
        (collections (db st))(''raw_readings'' := collections (db st) ''raw_readings'' @ (n1 @ n2))"
      unfolding n2(2) n1(1) by simp
    from n1 None have cnt: "count st1 = count st + 1" "length n1 = 1"
      by auto
    then obtain d where d: "n1 = [d]"
      by (cases n1) auto
    with n1(7) have sd: "submitted f dd it d"
      by simp
    have l: "list_all2 (submitted f dd) (take (Suc k2) (it # its)) (n1 @ n2)"
      using sd n2(5) d by simp
    show ?thesis
      using c n1(2,3) n2(1,3,4,6,7,8) cnt l
      by (intro exI [of _ "Suc k2"] exI [of _ "n1 @ n2"]) auto
  qed
qed

lemma run_loop_append:
  "run_loop f dd iv (xs @ ys) st =
     (case run_loop f dd iv xs st of (Some x, st') \<Rightarrow> (Some x, st') | (None, st') \<Rightarrow> run_loop f dd iv ys st')"
  by (induction xs arbitrary: st) (auto split: prod.splits option.splits)

lemma push_data_Running:
  assumes "status (push_data f dd iv its client) = Running"
  shows "run_loop f dd iv its \<lparr>db = client, count = 0, printed = [Started iv], status = Running\<rparr>
           = (None, push_data f dd iv its client)"
  using assms
  by (auto simp: push_data_def split: prod.splits option.splits exc.splits)

lemma push_data_leaves_loop:
  assumes "status (push_data f dd iv pre client) = Running"
    and "loop_body f dd iv it (push_data f dd iv pre client) = (Some x, st')"
  shows "push_data f dd iv (pre @ it # rest) client =
     (case x of
        KeyboardInterrupt \<Rightarrow> st'\<lparr>printed := printed st' @ [StreamStopped (count st')], status := Stopped\<rparr>
      | Exception e \<Rightarrow> st'\<lparr>printed := printed st' @ [ErrorLine e], status := Crashed e\<rparr>)"
proof -
  have "run_loop f dd iv (pre @ it # rest)
          \<lparr>db = client, count = 0, printed = [Started iv], status = Running\<rparr> = (Some x, st')"
    by (simp add: run_loop_append push_data_Running [OF assms(1)] assms(2))
  then show ?thesis
    by (simp add: push_data_def)
qed

lemma push_data_effect:
  "\<exists>k new. k \<le> length its \<and>
     collections (db (push_data f dd iv its client)) =
       (collections client)(''raw_readings'' := collections client ''raw_readings'' @ new) \<and>
     issued (db (push_data f dd iv its client)) = issued client \<and>
     list_all2 (submitted f dd) (take k its) new \<and>
     count (push_data f dd iv its client) \<le> k \<and>
     k \<le> count (push_data f dd iv its client) + 1 \<and>
     (status (push_data f dd iv its client) = Running \<longrightarrow>
        k = length its \<and> count (push_data f dd iv its client) = length its)"
proof -
  let ?st0 = "\<lparr>db = client, count = 0, printed = [Started iv], status = Running\<rparr>"
  obtain x st where r: "run_loop f dd iv its ?st0 = (x, st)"
    by (cases "run_loop f dd iv its ?st0")
  from run_loop_effect [OF r] obtain k new where n:
    "k \<le> length its"
    "collections (db st) =
       (collections client)(''raw_readings'' := collections client ''raw_readings'' @ new)"
    "issued (db st) = issued client" "status st = Running"
    "list_all2 (submitted f dd) (take k its) new"
    "k \<le> count st + 1" "count st \<le> k"
    "x = None \<longrightarrow> k = length its \<and> count st = length its"
    by auto
  have p: "db (push_data f dd iv its client) = db st"
      "count (push_data f dd iv its client) = count st"
      "status (push_data f dd iv its client) = Running \<longrightarrow> x = None"
    using r by (auto simp: push_data_def split: option.splits exc.splits)
  show ?thesis
    unfolding p(1,2) using n p(3) by (intro exI [of _ k] exI [of _ new]) auto
qed

lemmas push_eval = push_data_def loop_body_def firestore_add_def resolve_sentinel_def
  features_line_def format_2f_def

text \<open>
  Claim C2, as the code has it. The claim says that a submission the store rejects is logged
  and the loop goes on with the next iteration. The \<open>try\<close> encloses the whole loop, so the
  failure is printed once and \<open>push_data\<close> returns: when the passes \<open>pre\<close> have completed
  and the store rejects the write of the next pass, the result is the state after \<open>pre\<close>
  with the error line added and the status \<open>Crashed\<close>, whatever passes \<open>rest\<close> were to follow.
\<close>

theorem store_failure_ends_stream:
  assumes "status (push_data f dd iv pre client) = Running"
    and "get_random_sample f (draw_file it) (draw_row it) dd = Inr sample"
    and "stop_at it \<noteq> Some BeforeSample" and "stop_at it \<noteq> Some BeforeAdd"
    and "store_reply it = None"
  shows "push_data f dd iv (pre @ it # rest) client =
           (push_data f dd iv pre client)
             \<lparr>printed := printed (push_data f dd iv pre client) @ [ErrorLine StoreError],
              status := Crashed StoreError\<rparr>"
proof -
  have "loop_body f dd iv it (push_data f dd iv pre client) =
          (Some (Exception StoreError), push_data f dd iv pre client)"
    using assms(2-5) by (simp add: loop_body_def firestore_add_def)
  from push_data_leaves_loop [OF assms(1) this] show ?thesis
    by simp
qed

theorem store_failure_ends_stream_witness:
  "let r = push_data Map.empty
             [(''NORMAL_OP.csv'', [[(''Ia'', CFloat (Fin 1)), (''Ib'', CInt 2), (''VDC'', CFloat (Fin 48))]])] 60
             [\<lparr>draw_file = 0, draw_row = 0, store_reply = Some 100, stop_at = None\<rparr>,
              \<lparr>draw_file = 0, draw_row = 0, store_reply = None, stop_at = None\<rparr>,
              \<lparr>draw_file = 0, draw_row = 0, store_reply = Some 300, stop_at = None\<rparr>]
             \<lparr>collections = (\<lambda>n. []), issued = []\<rparr>
   in status r = Crashed StoreError \<and> count r = 1 \<and>
      printed r = [Started 60, Pushed 1 (PStr ''NORMAL_OP.csv''), Features (PFloat (Fin 1)) (PFloat (Fin 2)) (PFloat (Fin 48)),
                   ErrorLine StoreError] \<and>
      collections (db r) ''raw_readings'' =
        [[(''Ia'', PFloat (Fin 1)), (''Ib'', PFloat (Fin 2)), (''VDC'', PFloat (Fin 48)),
          (''source_file'', PStr ''NORMAL_OP.csv''), (''timestamp'', Timestamp 100)]]"
proof -
  let ?dd = "[(''NORMAL_OP.csv'', [[(''Ia'', CFloat (Fin 1)), (''Ib'', CInt 2), (''VDC'', CFloat (Fin 48))]])]"
  let ?ok = "\<lparr>draw_file = 0, draw_row = 0, store_reply = Some 100, stop_at = None\<rparr>"
  let ?bad = "\<lparr>draw_file = 0, draw_row = 0, store_reply = None, stop_at = None\<rparr>"
  let ?later = "\<lparr>draw_file = 0, draw_row = 0, store_reply = Some 300, stop_at = None\<rparr>"
  let ?client = "\<lparr>collections = (\<lambda>n. []), issued = []\<rparr>"
  have 1: "status (push_data Map.empty ?dd 60 [?ok] ?client) = Running"
    by (simp add: push_eval sample_eval)
  have 2: "get_random_sample Map.empty (draw_file ?bad) (draw_row ?bad) ?dd =
      Inr [(''Ia'', PFloat (Fin 1)), (''Ib'', PFloat (Fin 2)), (''VDC'', PFloat (Fin 48)),
           (''source_file'', PStr ''NORMAL_OP.csv''), (''timestamp'', SERVER_TIMESTAMP)]"
    by (simp add: sample_eval)
  have 3: "stop_at ?bad \<noteq> Some BeforeSample" and 4: "stop_at ?bad \<noteq> Some BeforeAdd"
    and 5: "store_reply ?bad = None"
    by simp_all
  from store_failure_ends_stream [OF 1 2 3 4 5, of "[?later]"] show ?thesis
    by (simp add: push_eval sample_eval)
qed

text \<open>
  Claim C2 as stated fails: the store rejects the first write and would accept the second;
  the stream ends with the error line and the second sample is never submitted.
\<close>

theorem store_failure_continues_counterexample:
  "let r = push_data Map.empty
             [(''NORMAL_OP.csv'', [[(''Ia'', CFloat (Fin 1)), (''Ib'', CInt 2), (''VDC'', CFloat (Fin 48))]])] 60
             [\<lparr>draw_file = 0, draw_row = 0, store_reply = None, stop_at = None\<rparr>,
              \<lparr>draw_file = 0, draw_row = 0, store_reply = Some 300, stop_at = None\<rparr>]
             \<lparr>collections = (\<lambda>n. []), issued = []\<rparr>
   in status r = Crashed StoreError \<and> count r = 0 \<and>
      printed r = [Started 60, ErrorLine StoreError] \<and>
      collections (db r) ''raw_readings'' = []"
  by (simp add: push_eval sample_eval)




section \<open>The read side\<close>

subsection \<open>What \<open>fetch_verdicts\<close> reads\<close>


lemma fetch_verdicts_body_reads_verdicts:
  "collections c1 ''verdicts'' = collections c2 ''verdicts'' \<Longrightarrow>
   fst (fetch_verdicts_body parse a c1) = fst (fetch_verdicts_body parse a c2)"
  by (simp add: fetch_verdicts_body_def firestore_stream_def verdicts_query_def Let_def
      split: if_splits sum.splits)

lemma fetch_verdicts_reads_verdicts:
  assumes "collections c1 ''verdicts'' = collections c2 ''verdicts''"
  shows "fst (fetch_verdicts parse c cache c1) = fst (fetch_verdicts parse c cache c2) \<and>
         fst (snd (fetch_verdicts parse c cache c1)) = fst (snd (fetch_verdicts parse c cache c2))"
proof -
  obtain r1 d1 where 1: "fetch_verdicts_body parse (store_answers c) c1 = (r1, d1)"
    by (cases "fetch_verdicts_body parse (store_answers c) c1")
  obtain r2 d2 where 2: "fetch_verdicts_body parse (store_answers c) c2 = (r2, d2)"
    by (cases "fetch_verdicts_body parse (store_answers c) c2")
  from fetch_verdicts_body_reads_verdicts [OF assms, of parse "store_answers c"] 1 2 have "r1 = r2"
    by simp
  with 1 2 show ?thesis
    by (auto simp: fetch_verdicts_def cache_data_def cache_miss_def split: option.splits sum.splits)
qed

lemmas fetch_eval = fetch_verdicts_def cache_data_def cache_miss_def fetch_verdicts_body_def
  firestore_stream_def verdicts_query_def order_by_def field_of_def order_key_def
  df_empty_def column_def doc_row_def strip_tz_def to_datetime_def is_missing_def
  set_column_def

text \<open>
  Claim C1, as the code has it. The claim says that the generator writes to the collection
  \<open>fetch_verdicts\<close> reads. The generator appends its records to \<open>raw_readings\<close> and changes
  no other collection: the store after a run is the store before it with new records at the
  end of \<open>raw_readings\<close>. The new records are, in order, the whole samples of the first \<open>k\<close>
  passes, each with the store's clock reading; \<open>k\<close> is the count or one more, and it is the
  number of all passes when the loop is still running. \<open>fetch_verdicts\<close> queries
  \<open>verdicts\<close>: after the run it returns, and holds in its cache, what it would have
  without the run.
\<close>

theorem generator_writes_raw_readings:
  "\<exists>k new. k \<le> length its \<and>
     collections (db (push_data f dd iv its client)) =
       (collections client)(''raw_readings'' := collections client ''raw_readings'' @ new) \<and>
     list_all2
       (\<lambda>p d. \<exists>s t. get_random_sample f (draw_file p) (draw_row p) dd = Inr s \<and>
                     store_reply p = Some t \<and>
                     d = AList.update ''timestamp'' (Timestamp t) s)
       (take k its) new \<and>
     count (push_data f dd iv its client) \<le> k \<and>
     k \<le> count (push_data f dd iv its client) + 1 \<and>
     (status (push_data f dd iv its client) = Running \<longrightarrow> k = length its) \<and>
     fst (fetch_verdicts parse c cache (db (push_data f dd iv its client))) =
       fst (fetch_verdicts parse c cache client) \<and>
     fst (snd (fetch_verdicts parse c cache (db (push_data f dd iv its client)))) =
       fst (snd (fetch_verdicts parse c cache client))"
proof -
  from push_data_effect [of its f dd iv client] obtain k new where n:
    "k \<le> length its"
    "collections (db (push_data f dd iv its client)) =
       (collections client)(''raw_readings'' := collections client ''raw_readings'' @ new)"
    "list_all2 (submitted f dd) (take k its) new"
    "count (push_data f dd iv its client) \<le> k"
    "k \<le> count (push_data f dd iv its client) + 1"
    "status (push_data f dd iv its client) = Running \<longrightarrow> k = length its"
    by auto
  have v: "collections (db (push_data f dd iv its client)) ''verdicts'' = collections client ''verdicts''"
    unfolding n(2) by simp
  from fetch_verdicts_reads_verdicts [OF v, of parse c cache] n show ?thesis
    by blast
qed

theorem generator_writes_raw_readings_witness:
  "let r = push_data Map.empty
             [(''NORMAL_OP.csv'', [[(''Ia'', CFloat (Fin 1)), (''Ib'', CInt 2), (''VDC'', CFloat (Fin 48))]])] 60
             [\<lparr>draw_file = 0, draw_row = 0, store_reply = Some 100, stop_at = None\<rparr>]
             \<lparr>collections = (\<lambda>n. if n = ''verdicts''
                                   then [[(''confidence'', PFloat (Fin 1)),
                                          (''timestamp'', Timestamp 1762214400123456789)]]
                                   else []),
              issued = []\<rparr>
   in status r = Running \<and>
      collections (db r) ''raw_readings'' =
        [[(''Ia'', PFloat (Fin 1)), (''Ib'', PFloat (Fin 2)), (''VDC'', PFloat (Fin 48)),
          (''source_file'', PStr ''NORMAL_OP.csv''), (''timestamp'', Timestamp 100)]] \<and>
      fst (fetch_verdicts Inr \<lparr>started_at = 200, stored_at = 201, store_answers = True\<rparr> None (db r)) =
        Inr [[(''confidence'', PFloat (Fin 1)), (''timestamp'', Datetime 1762214400123456000)]]"
proof -
  let ?dd = "[(''NORMAL_OP.csv'', [[(''Ia'', CFloat (Fin 1)), (''Ib'', CInt 2), (''VDC'', CFloat (Fin 48))]])]"
  let ?ok = "\<lparr>draw_file = 0, draw_row = 0, store_reply = Some 100, stop_at = None\<rparr>"
  let ?client = "\<lparr>collections = (\<lambda>n. if n = ''verdicts''
                                   then [[(''confidence'', PFloat (Fin 1)),
                                          (''timestamp'', Timestamp 1762214400123456789)]]
                                   else []),
              issued = []\<rparr>"
  let ?c = "\<lparr>started_at = 200, stored_at = 201, store_answers = True\<rparr>"
  let ?r = "push_data Map.empty ?dd 60 [?ok] ?client"
  have f: "fst (fetch_verdicts Inr ?c None ?client) =
          Inr [[(''confidence'', PFloat (Fin 1)), (''timestamp'', Datetime 1762214400123456000)]]"
    by (simp add: fetch_eval)
  have s: "status ?r = Running"
    by (simp add: push_eval sample_eval)
  have d: "collections (db ?r) ''raw_readings'' =
        [[(''Ia'', PFloat (Fin 1)), (''Ib'', PFloat (Fin 2)), (''VDC'', PFloat (Fin 48)),
          (''source_file'', PStr ''NORMAL_OP.csv''), (''timestamp'', Timestamp 100)]]"
    by (simp add: push_eval sample_eval)
  from generator_writes_raw_readings [of "[?ok]" Map.empty ?dd 60 ?client Inr ?c None]
  have "fst (fetch_verdicts Inr ?c None (db ?r)) = fst (fetch_verdicts Inr ?c None ?client)"
    by blast
  with f s d show ?thesis
    by (simp add: Let_def)
qed

text \<open>
  Claim C1 as stated fails: after one accepted submission into an empty store the record is
  in \<open>raw_readings\<close> and a fresh \<open>fetch_verdicts\<close> returns no record.
\<close>

theorem appended_record_fetched_counterexample:
  "let r = push_data Map.empty
             [(''NORMAL_OP.csv'', [[(''Ia'', CFloat (Fin 1)), (''Ib'', CInt 2), (''VDC'', CFloat (Fin 48))]])] 60
             [\<lparr>draw_file = 0, draw_row = 0, store_reply = Some 100, stop_at = None\<rparr>]
             \<lparr>collections = (\<lambda>n. []), issued = []\<rparr>
   in count r = 1 \<and>
      collections (db r) ''raw_readings'' =
        [[(''Ia'', PFloat (Fin 1)), (''Ib'', PFloat (Fin 2)), (''VDC'', PFloat (Fin 48)),
          (''source_file'', PStr ''NORMAL_OP.csv''), (''timestamp'', Timestamp 100)]] \<and>
      fst (fetch_verdicts Inr \<lparr>started_at = 200, stored_at = 201, store_answers = True\<rparr> None (db r)) =
        Inr []"
  by (simp add: push_eval sample_eval fetch_eval)

subsection \<open>Confidence on the way through\<close>















subsection \<open>The cache\<close>



text \<open>
  Claim C5 as stated fails: the store does not answer the first call, which raises and
  caches nothing; the second call, one second later, issues a second query.
\<close>

theorem two_calls_two_queries_counterexample:
  "fetch_verdicts Inr \<lparr>started_at = 0, stored_at = 0, store_answers = False\<rparr> None
     \<lparr>collections = (\<lambda>n. []), issued = []\<rparr> =
     (Inl StoreError, None, \<lparr>collections = (\<lambda>n. []), issued = [verdicts_query]\<rparr>) \<and>
   fetch_verdicts Inr \<lparr>started_at = 1, stored_at = 1, store_answers = True\<rparr> None
     \<lparr>collections = (\<lambda>n. []), issued = [verdicts_query]\<rparr> =
     (Inr [], Some \<lparr>cached_value = [], captured_at = 1\<rparr>,
      \<lparr>collections = (\<lambda>n. []), issued = [verdicts_query, verdicts_query]\<rparr>)"
  by (simp add: fetch_eval)

section \<open>The report\<close>

text \<open>
  Claim C8. For an empty snapshot the story is the title, the generation line and the
  notice \<open>No data available.\<close>, and nothing else: no count, mean or uptime is part of it.
\<close>

theorem empty_snapshot_report:
  assumes "df_empty df"
  shows "generate_pdf_report now df =
     Inr [Paragraph [Lit ''<b>PMSM Fault Diagnosis Report</b>''] ''Title'',
          Spacer 1 12,
          Paragraph [Lit ''Generated: '', Clock now] ''Normal'',
          Spacer 1 12,
          Paragraph [Lit ''No data available.''] ''Normal'']"
proof -
  have "generate_pdf_report now df =
          Inr (report_header now @ [Paragraph [Lit ''No data available.''] ''Normal''])"
    using assms by (simp add: generate_pdf_report_def)
  then show ?thesis
    by (simp add: report_header_def)
qed

theorem empty_snapshot_report_witness:
  "df_empty [] \<and>
   generate_pdf_report 1762214400 [] =
     Inr [Paragraph [Lit ''<b>PMSM Fault Diagnosis Report</b>''] ''Title'',
          Spacer 1 12,
          Paragraph [Lit ''Generated: '', Clock 1762214400] ''Normal'',
          Spacer 1 12,
          Paragraph [Lit ''No data available.''] ''Normal'']"
proof -
  have e: "df_empty []"
    by (simp add: df_empty_def)
  from e empty_snapshot_report [OF e, of 1762214400] show ?thesis
    by simp
qed




lemmas report_eval = generate_pdf_report_def report_header_def df_empty_def column_def
  series_mean_def finite_values_def fmul_def fdiv_def span_seconds_def instants_def
  value_counts_def is_missing_def



text \<open>
  Claim C9 as stated fails: \<open>fetch_verdicts\<close> hands over the snapshot of one verdict whose
  timestamp is None, and the report prints NaN as its uptime; a snapshot without a
  confidence column gives KeyError and no report.
\<close>

theorem uptime_counterexample:
  "fst (fetch_verdicts Inr \<lparr>started_at = 0, stored_at = 1, store_answers = True\<rparr> None
          \<lparr>collections = (\<lambda>n. if n = ''verdicts''
              then [[(''fault_label'', PStr ''NORMAL_OP''), (''confidence'', PFloat (Fin 0.9)),
                     (''timestamp'', PNone)]]
              else []),
           issued = []\<rparr>) =
     Inr [[(''fault_label'', PStr ''NORMAL_OP''), (''confidence'', PFloat (Fin 0.9)),
           (''timestamp'', PNone)]] \<and>
   generate_pdf_report 0
     [[(''fault_label'', PStr ''NORMAL_OP''), (''confidence'', PFloat (Fin 0.9)),
       (''timestamp'', PNone)]] =
     Inr [Paragraph [Lit ''<b>PMSM Fault Diagnosis Report</b>''] ''Title'',
          Spacer 1 12,
          Paragraph [Lit ''Generated: '', Clock 0] ''Normal'',
          Spacer 1 12,
          Paragraph [Lit ''Total Samples Processed: '', IntP 1] ''Normal'',
          Paragraph [Lit ''Average Confidence: '', Float2 (Fin 90), Lit ''%''] ''Normal'',
          Paragraph [Lit ''System Uptime: '', Float2 NaN, Lit '' hours''] ''Normal'',
          Spacer 1 12,
          Table [[Head ''Fault'', Head ''Count''], [Label (PStr ''NORMAL_OP''), Count 1]],
          Spacer 1 12] \<and>
   generate_pdf_report 0
     [[(''fault_label'', PStr ''NORMAL_OP''), (''timestamp'', Datetime 0)]] =
     Inl (KeyError ''confidence'')"
  by (simp add: fetch_eval report_eval)

end
